theory Spec2Isabelle
  imports Complex_Main "HOL-Library.Multiset" "HOL-Library.Sublist" "HOL-Library.Word"
begin

section \<open>Data model (scanner/types.ts)\<close>

text \<open>
  JavaScript numbers are modelled exactly: lamports and slots, which the RPC layer delivers
  as integers, are \<open>int\<close>; weights, thresholds, scores and SOL amounts are \<open>real\<close>
  (no rounding, no NaN). Optional fields are \<open>option\<close>.
\<close>

type_synonym bytes = "8 word list"

record AccountInfo =
  pubkey :: string
  owner :: string
  lamports :: int
  data :: bytes
  executable :: bool
  rentEpoch :: int
  lastWriteSlot :: "int option"

record PDAccountInfo = AccountInfo +
  isPDA :: bool
  seeds :: "string list option"
  bump :: "nat option"

datatype RiskLevel = Low | Medium | High | Critical

datatype IndicatorType =
  Inactivity | AuthorityMismatch | OrphanedPda | RentRecoverable | LegacyAuthority

text \<open>
  The \<open>reason\<close> of an indicator is a template string in the source; the model keeps the
  template and the values it interpolates, not the formatted text.
\<close>

datatype Reason =
  NoWriteActivityDetected
| NoWriteActivityFor int int
| DerivationPathUnknown
| PotentiallyRecoverable real

record RiskIndicator =
  ind_type :: IndicatorType
  reason :: Reason
  weight :: real

record AccountRiskProfile =
  profile_pubkey :: string
  riskLevel :: RiskLevel
  confidenceScore :: real
  indicators :: "RiskIndicator list"
  estimatedRecoverableSOL :: real

datatype Privilege = Signer | Writable | Owner

record AuthorityRelationship =
  account :: string
  authority :: string
  privilege :: Privilege
  isActive :: bool

datatype NodeType = ProgramNode | PdaNode | AccountNode

record NodeMetadata =
  md_lamports :: int
  md_owner :: string
  lastActivity :: "int option"
  md_isPDA :: bool

record AccountGraphNode =
  node_id :: string
  node_pubkey :: string
  node_type :: NodeType
  riskProfile :: "AccountRiskProfile option"
  metadata :: NodeMetadata

datatype Relationship = Owns | AuthorityEdge | DerivedFrom | WritesTo

record AccountGraphEdge =
  source :: string
  target :: string
  relationship :: Relationship
  edge_isActive :: bool

record AccountGraph =
  nodes :: "AccountGraphNode list"
  edges :: "AccountGraphEdge list"
  programId :: string
  scanTimestamp :: int
  graph_currentSlot :: int

datatype error = TypeError | InvalidPublicKey

section \<open>Ghost account detection (analysis/ghost-detector.ts)\<close>

record RiskScoringWeights =
  inactivity :: real
  authorityMismatch :: real
  orphanedPda :: real
  rentRecoverable :: real

record RiskThresholds =
  low :: real
  medium :: real
  high :: real
  critical :: real

record GhostDetector =
  currentSlot :: int
  inactiveSlotThreshold :: int
  weights :: RiskScoringWeights
  thresholds :: RiskThresholds

text \<open>
  \<open>!account.lastWriteSlot\<close> is JavaScript's truthiness test on \<open>number | undefined\<close>:
  it holds for \<open>undefined\<close> and also for the number \<open>0\<close>, so both take the first branch.
\<close>

definition checkInactivity :: "GhostDetector \<Rightarrow> PDAccountInfo \<Rightarrow> RiskIndicator option" where
  "checkInactivity d acc =
     (let noActivity = Some \<lparr>ind_type = Inactivity, reason = NoWriteActivityDetected,
                             weight = inactivity (weights d) * 100\<rparr> in
      case lastWriteSlot acc of
        None \<Rightarrow> noActivity
      | Some s \<Rightarrow>
          if s = 0 then noActivity
          else
            (let inactiveSince = currentSlot d - s in
             if inactiveSince > inactiveSlotThreshold d then
               (let daysInactive = \<lfloor>(real_of_int inactiveSince * (4 / 10)) / 86400\<rfloor> in
                Some \<lparr>ind_type = Inactivity,
                      reason = NoWriteActivityFor inactiveSince daysInactive,
                      weight = inactivity (weights d) * 100\<rparr>)
             else None))"

definition checkOrphanedPDA :: "GhostDetector \<Rightarrow> PDAccountInfo \<Rightarrow> RiskIndicator option" where
  "checkOrphanedPDA d acc =
     (if \<not> isPDA acc then None
      else if (case seeds acc of None \<Rightarrow> True | Some ss \<Rightarrow> length ss = 0) then
        Some \<lparr>ind_type = OrphanedPda, reason = DerivationPathUnknown,
              weight = orphanedPda (weights d) * 100\<rparr>
      else None)"

definition checkRentRecoverable ::
  "GhostDetector \<Rightarrow> PDAccountInfo \<Rightarrow> int \<Rightarrow> RiskIndicator option" where
  "checkRentRecoverable d acc minRentExemptBalance =
     (let recoverableAmount = lamports acc - minRentExemptBalance in
      if recoverableAmount > 0 then
        (let recoverableSOL = real_of_int recoverableAmount / 1000000000 in
         Some \<lparr>ind_type = RentRecoverable, reason = PotentiallyRecoverable recoverableSOL,
               weight = rentRecoverable (weights d) * min 100 (recoverableSOL * 10)\<rparr>)
      else None)"

definition determineRiskLevel :: "GhostDetector \<Rightarrow> real \<Rightarrow> RiskLevel" where
  "determineRiskLevel d score =
     (if score \<ge> critical (thresholds d) then Critical
      else if score \<ge> high (thresholds d) then High
      else if score \<ge> medium (thresholds d) then Medium
      else Low)"

definition calculateRecoverableSOL :: "PDAccountInfo \<Rightarrow> int \<Rightarrow> RiskLevel \<Rightarrow> real" where
  "calculateRecoverableSOL acc minRentExemptBalance level =
     (if level = High \<or> level = Critical then
        (let recoverableAmount = max 0 (lamports acc - minRentExemptBalance) in
         real_of_int recoverableAmount / 1000000000)
      else 0)"

text \<open>
  One step of the accumulation in \<open>generateRiskProfile\<close>: an indicator that fired is pushed
  onto \<open>indicators\<close> and its weight is added to \<open>totalWeight\<close>.
\<close>

definition pushIndicator ::
  "RiskIndicator option \<Rightarrow> RiskIndicator list \<times> real \<Rightarrow> RiskIndicator list \<times> real" where
  "pushIndicator r st =
     (case r of None \<Rightarrow> st
      | Some i \<Rightarrow> (fst st @ [i], snd st + weight i))"

definition generateRiskProfile ::
  "GhostDetector \<Rightarrow> PDAccountInfo \<Rightarrow> int \<Rightarrow> AccountRiskProfile" where
  "generateRiskProfile d acc minRentExemptBalance =
     (let st0 = ([], 0);
          st1 = pushIndicator (checkInactivity d acc) st0;
          st2 = pushIndicator (checkOrphanedPDA d acc) st1;
          st3 = pushIndicator (checkRentRecoverable d acc minRentExemptBalance) st2;
          score = min 100 (snd st3);
          level = determineRiskLevel d score;
          sol = calculateRecoverableSOL acc minRentExemptBalance level
      in \<lparr>profile_pubkey = pubkey acc, riskLevel = level, confidenceScore = score,
          indicators = fst st3, estimatedRecoverableSOL = sol\<rparr>)"

definition analyzeAccounts ::
  "GhostDetector \<Rightarrow> PDAccountInfo list \<Rightarrow> int \<Rightarrow> AccountRiskProfile list" where
  "analyzeAccounts d accounts minRentExemptBalance =
     map (\<lambda>acc. generateRiskProfile d acc minRentExemptBalance) accounts"

section \<open>Authority tracking (analysis/authority-tracker.ts)\<close>

text \<open>
  \<open>forEach\<close> pushes, per account and in this order, an owner relationship when the owner
  differs from the account itself and a signer relationship when the account is a PDA whose
  \<open>seeds\<close> field is set (any array, also an empty one, is truthy).
\<close>

definition accountRelationships :: "string \<Rightarrow> PDAccountInfo \<Rightarrow> AuthorityRelationship list" where
  "accountRelationships progId acc =
     (if owner acc \<noteq> pubkey acc then
        [\<lparr>account = pubkey acc, authority = owner acc, privilege = Owner, isActive = True\<rparr>]
      else []) @
     (if isPDA acc \<and> seeds acc \<noteq> None then
        [\<lparr>account = pubkey acc, authority = progId, privilege = Signer, isActive = True\<rparr>]
      else [])"

definition buildAuthorityRelationships ::
  "string \<Rightarrow> PDAccountInfo list \<Rightarrow> AuthorityRelationship list" where
  "buildAuthorityRelationships progId accounts = concat (map (accountRelationships progId) accounts)"

definition detectLegacyAuthorities ::
  "string \<Rightarrow> AuthorityRelationship list \<Rightarrow> PDAccountInfo list \<Rightarrow> AuthorityRelationship list" where
  "detectLegacyAuthorities progId relationships accounts =
     (let accountPubkeys = set (map pubkey accounts) in
      filter (\<lambda>rel. authority rel \<notin> accountPubkeys \<and> authority rel \<noteq> progId) relationships)"

text \<open>
  The inner closure \<open>buildChain\<close> pushes onto the shared array \<open>chains\<close>; the model returns
  the chains a call pushes, in push order. An authority already in the chain is skipped
  by the \<open>if\<close> inside \<open>forEach\<close>, which has no \<open>else\<close>.
\<close>

function buildChain ::
  "AuthorityRelationship list \<Rightarrow> int \<Rightarrow> string \<Rightarrow> string list \<Rightarrow> int \<Rightarrow> string list list" where
  "buildChain relationships maxDepth current chain depth =
     (if depth \<ge> maxDepth then [chain]
      else
        (let authorities =
               filter (\<lambda>rel. account rel = current \<and> privilege rel = Owner) relationships in
         if length authorities = 0 then [chain]
         else
           concat (map (\<lambda>auth.
                          if authority auth \<notin> set chain then
                            buildChain relationships maxDepth (authority auth)
                              (chain @ [authority auth]) (depth + 1)
                          else [])
                       authorities)))"
  by pat_completeness auto
termination
  by (relation "measure (\<lambda>(relationships, maxDepth, current, chain, depth). nat (maxDepth - depth))")
     auto

definition buildAuthorityChains ::
  "string \<Rightarrow> AuthorityRelationship list \<Rightarrow> int \<Rightarrow> string list list" where
  "buildAuthorityChains startAccount relationships maxDepth =
     buildChain relationships maxDepth startAccount [startAccount] 0"

section \<open>Graph builder (visualization/graph-builder.ts)\<close>

text \<open>
  \<open>new Map(riskProfiles.map(p => [p.pubkey, p]))\<close>: a later profile with the same key
  replaces an earlier one.
\<close>

definition riskMap :: "AccountRiskProfile list \<Rightarrow> string \<rightharpoonup> AccountRiskProfile" where
  "riskMap riskProfiles = map_of (rev (map (\<lambda>p. (profile_pubkey p, p)) riskProfiles))"

definition buildNodes ::
  "string \<Rightarrow> PDAccountInfo list \<Rightarrow> AccountRiskProfile list \<Rightarrow> AccountGraphNode list" where
  "buildNodes progId accounts riskProfiles =
     (let programNode =
            \<lparr>node_id = progId, node_pubkey = progId, node_type = ProgramNode, riskProfile = None,
             metadata = \<lparr>md_lamports = 0, md_owner = ''BPFLoaderUpgradeab1e11111111111111111111111'',
                         lastActivity = None, md_isPDA = False\<rparr>\<rparr>;
          accountNodes =
            map (\<lambda>acc.
                   \<lparr>node_id = pubkey acc, node_pubkey = pubkey acc,
                    node_type = (if isPDA acc then PdaNode else AccountNode),
                    riskProfile = riskMap riskProfiles (pubkey acc),
                    metadata = \<lparr>md_lamports = lamports acc, md_owner = owner acc,
                                lastActivity = lastWriteSlot acc, md_isPDA = isPDA acc\<rparr>\<rparr>)
                accounts
      in programNode # accountNodes)"

definition buildEdges ::
  "string \<Rightarrow> PDAccountInfo list \<Rightarrow> AuthorityRelationship list \<Rightarrow> AccountGraphEdge list" where
  "buildEdges progId accounts authorities =
     map (\<lambda>acc. \<lparr>source = progId, target = pubkey acc, relationship = Owns, edge_isActive = True\<rparr>)
         (filter (\<lambda>acc. owner acc = progId) accounts) @
     map (\<lambda>acc. \<lparr>source = progId, target = pubkey acc, relationship = DerivedFrom,
                 edge_isActive = True\<rparr>)
         (filter (\<lambda>acc. isPDA acc \<and> seeds acc \<noteq> None) accounts) @
     map (\<lambda>auth. \<lparr>source = authority auth, target = account auth, relationship = AuthorityEdge,
                  edge_isActive = isActive auth\<rparr>)
         (filter (\<lambda>auth. privilege auth = Owner \<and> authority auth \<noteq> progId) authorities)"

text \<open>\<open>Date.now()\<close> is the parameter \<open>now\<close>.\<close>

definition buildGraph ::
  "string \<Rightarrow> int \<Rightarrow> int \<Rightarrow> PDAccountInfo list \<Rightarrow> AccountRiskProfile list \<Rightarrow>
   AuthorityRelationship list \<Rightarrow> AccountGraph" where
  "buildGraph progId slot now accounts riskProfiles authorities =
     \<lparr>nodes = buildNodes progId accounts riskProfiles,
      edges = buildEdges progId accounts authorities,
      programId = progId, scanTimestamp = now, graph_currentSlot = slot\<rparr>"

text \<open>
  \<open>Array.prototype.slice(0, end)\<close> for an integer \<open>end\<close>: a negative \<open>end\<close> counts from
  the end of the array, and both bounds are clamped to the array.
\<close>

definition slice0 :: "'a list \<Rightarrow> int \<Rightarrow> 'a list" where
  "slice0 xs endIdx =
     (let len = int (length xs);
          final = (if endIdx < 0 then max (len + endIdx) 0 else min endIdx len)
      in take (nat final) xs)"

text \<open>\<open>a.riskProfile?.confidenceScore || 0\<close>: a missing profile counts as score 0.\<close>

definition nodeScore :: "AccountGraphNode \<Rightarrow> real" where
  "nodeScore n = (case riskProfile n of None \<Rightarrow> 0 | Some p \<Rightarrow> confidenceScore p)"

text \<open>
  \<open>otherNodes.sort((a, b) => scoreB - scoreA)\<close>: \<open>Array.prototype.sort\<close> is a stable sort
  (ECMAScript 2019), here in descending order of score. \<open>sort_key\<close> is the stable insertion
  sort of the list library, ascending in its key, so the key is the negated score.
\<close>

definition sortByScoreDesc :: "AccountGraphNode list \<Rightarrow> AccountGraphNode list" where
  "sortByScoreDesc ns = sort_key (\<lambda>n. - nodeScore n) ns"

text \<open>
  \<open>find\<close> yields \<open>undefined\<close> when the graph has no program node; the non-null assertion is
  erased at run time, and \<open>selectedNodes.map(n => n.id)\<close> then throws a TypeError.
\<close>

definition filterGraphForVisualization ::
  "AccountGraph \<Rightarrow> int \<Rightarrow> bool \<Rightarrow> error + AccountGraph" where
  "filterGraphForVisualization graph maxNodes prioritizeHighRisk =
     (if int (length (nodes graph)) \<le> maxNodes then Inr graph
      else
        (case find (\<lambda>n. node_type n = ProgramNode) (nodes graph) of
           None \<Rightarrow> Inl TypeError
         | Some programNode \<Rightarrow>
             (let otherNodes = filter (\<lambda>n. node_type n \<noteq> ProgramNode) (nodes graph);
                  otherNodes' = (if prioritizeHighRisk then sortByScoreDesc otherNodes
                                 else otherNodes);
                  selectedNodes = programNode # slice0 otherNodes' (maxNodes - 1);
                  selectedNodeIds = set (map node_id selectedNodes);
                  selectedEdges =
                    filter (\<lambda>e. source e \<in> selectedNodeIds \<and> target e \<in> selectedNodeIds)
                           (edges graph)
              in Inr (graph\<lparr>nodes := selectedNodes, edges := selectedEdges\<rparr>))))"

section \<open>PDA detection (scanner/pda-detector.ts)\<close>

text \<open>
  \<open>PublicKey\<close> belongs to the Solana client library: it is the type variable \<open>'k\<close>, and the
  three library operations the detector calls are parameters:
  \<^item> \<open>newPublicKey\<close>, the constructor from the account's address string (it throws on a
    malformed string: \<open>None\<close>);
  \<^item> \<open>isOnCurve\<close>, the ed25519 curve test;
  \<^item> \<open>findProgramAddress seeds programId\<close>, which returns the derived address with the
    bump it found, or throws (\<open>None\<close>).
\<close>

definition commonSeeds :: "string list list" where
  "commonSeeds =
     [[''metadata''], [''vault''], [''pool''], [''authority''], [''state''], [''config''],
      [''escrow''], [''mint''], [''token''], [''user''], [''account''], [''data'']]"

text \<open>\<open>Buffer.from(s)\<close> on an ASCII label: one byte per character.\<close>

definition Buffer_from :: "string \<Rightarrow> bytes" where
  "Buffer_from s = map of_char s"

text \<open>
  The body of the inner loop: the seed buffers are the pattern's labels followed by the
  one-byte buffer \<open>Buffer.from([bump])\<close>; an exception of \<open>findProgramAddress\<close> is caught
  and the search continues.
\<close>

definition candidateMatches ::
  "(bytes list \<Rightarrow> 'k \<Rightarrow> ('k \<times> nat) option) \<Rightarrow> 'k \<Rightarrow> 'k \<Rightarrow> string list \<Rightarrow> nat \<Rightarrow> bool" where
  "candidateMatches findProgramAddress progId targetPubkey seedPattern b =
     (let seedBuffers = map Buffer_from seedPattern @ [[of_nat b]] in
      case findProgramAddress seedBuffers progId of
        None \<Rightarrow> False
      | Some (derivedPubkey, _) \<Rightarrow> derivedPubkey = targetPubkey)"

text \<open>\<open>for (let bump = 255; bump >= 0; bump--)\<close>, entered at \<open>b\<close>.\<close>

fun bumpLoop ::
  "(bytes list \<Rightarrow> 'k \<Rightarrow> ('k \<times> nat) option) \<Rightarrow> 'k \<Rightarrow> 'k \<Rightarrow> string list \<Rightarrow> nat \<Rightarrow> nat option" where
  "bumpLoop findProgramAddress progId targetPubkey seedPattern 0 =
     (if candidateMatches findProgramAddress progId targetPubkey seedPattern 0 then Some 0
      else None)"
| "bumpLoop findProgramAddress progId targetPubkey seedPattern (Suc b) =
     (if candidateMatches findProgramAddress progId targetPubkey seedPattern (Suc b)
      then Some (Suc b)
      else bumpLoop findProgramAddress progId targetPubkey seedPattern b)"

text \<open>\<open>for (const seedPattern of commonSeeds)\<close>.\<close>

fun patternLoop ::
  "(bytes list \<Rightarrow> 'k \<Rightarrow> ('k \<times> nat) option) \<Rightarrow> 'k \<Rightarrow> 'k \<Rightarrow> string list list \<Rightarrow>
   (string list \<times> nat) option" where
  "patternLoop findProgramAddress progId targetPubkey [] = None"
| "patternLoop findProgramAddress progId targetPubkey (seedPattern # rest) =
     (case bumpLoop findProgramAddress progId targetPubkey seedPattern 255 of
        Some b \<Rightarrow> Some (seedPattern, b)
      | None \<Rightarrow> patternLoop findProgramAddress progId targetPubkey rest)"

definition attemptCommonDerivations ::
  "(bytes list \<Rightarrow> 'k \<Rightarrow> ('k \<times> nat) option) \<Rightarrow> 'k \<Rightarrow> 'k \<Rightarrow> (string list \<times> nat) option" where
  "attemptCommonDerivations findProgramAddress progId targetPubkey =
     patternLoop findProgramAddress progId targetPubkey commonSeeds"

definition analyzePDA ::
  "(string \<Rightarrow> 'k option) \<Rightarrow> ('k \<Rightarrow> bool) \<Rightarrow> (bytes list \<Rightarrow> 'k \<Rightarrow> ('k \<times> nat) option) \<Rightarrow> 'k \<Rightarrow>
   AccountInfo \<Rightarrow> error + PDAccountInfo" where
  "analyzePDA newPublicKey isOnCurve findProgramAddress progId acc =
     (case newPublicKey (pubkey acc) of
        None \<Rightarrow> Inl InvalidPublicKey
      | Some pk \<Rightarrow>
          (let isPDA' = \<not> isOnCurve pk;
               derivationResult =
                 (if isPDA' then attemptCommonDerivations findProgramAddress progId pk else None)
           in Inr \<lparr>pubkey = pubkey acc, owner = owner acc, lamports = lamports acc,
                   data = data acc, executable = executable acc, rentEpoch = rentEpoch acc,
                   lastWriteSlot = lastWriteSlot acc, isPDA = isPDA',
                   seeds = map_option fst derivationResult,
                   bump = map_option snd derivationResult\<rparr>))"

section \<open>Report generation and scan pipeline (visualization/report-generator.ts, cli/commands/scan.ts)\<close>

text \<open>Decimal rendering of an array length inside a template string.\<close>

fun showNat :: "nat \<Rightarrow> string" where
  "showNat n =
     (if n < 10 then [char_of (48 + n)]
      else showNat (n div 10) @ [char_of (48 + n mod 10)])"

text \<open>
  The ``Authority Analysis'' part of \<open>generateMarkdown\<close>, from its heading to the rule that
  closes it. The two emoji are written as their UTF-8 bytes.
\<close>

definition authorityHeading :: string where
  "authorityHeading = ''### '' @ [CHR 0xF0, CHR 0x9F, CHR 0x94, CHR 0x90] @ '' Authority Analysis''"

definition inactiveAuthoritiesLine :: "nat \<Rightarrow> string" where
  "inactiveAuthoritiesLine n =
     [CHR 0xE2, CHR 0x9A, CHR 0xA0, CHR 0xEF, CHR 0xB8, CHR 0x8F] @ '' Found **'' @ showNat n @
     ''** inactive/legacy authority relationships.''"

definition authorityAnalysisLines :: "AuthorityRelationship list \<Rightarrow> string list" where
  "authorityAnalysisLines authorities =
     (let lines1 = [authorityHeading, [],
                    ''Total authority relationships tracked: **'' @ showNat (length authorities) @
                    ''**'', []];
          inactiveAuthorities = filter (\<lambda>a. \<not> isActive a) authorities;
          lines2 = (if length inactiveAuthorities > 0 then
                      lines1 @ [inactiveAuthoritiesLine (length inactiveAuthorities), []]
                    else lines1)
      in lines2 @ [''---'', []])"

text \<open>
  \<open>scanCommand\<close> stores in the scan result's \<open>authorities\<close> field exactly what
  \<open>buildAuthorityRelationships\<close> returns for the enriched accounts.
\<close>

definition scanResultAuthorities :: "string \<Rightarrow> PDAccountInfo list \<Rightarrow> AuthorityRelationship list" where
  "scanResultAuthorities progId enrichedAccounts =
     buildAuthorityRelationships progId enrichedAccounts"

section \<open>Auxiliary notions and example inputs\<close>

text \<open>The number of nodes of type \<open>program\<close> in a graph.\<close>

definition programNodeCount :: "AccountGraph \<Rightarrow> nat" where
  "programNodeCount graph = length (filter (\<lambda>n. node_type n = ProgramNode) (nodes graph))"

text \<open>The weight an optional indicator adds to \<open>totalWeight\<close>.\<close>

definition optWeight :: "RiskIndicator option \<Rightarrow> real" where
  "optWeight r = (case r of None \<Rightarrow> 0 | Some i \<Rightarrow> weight i)"

subsection \<open>The scoring scenarios of the specification\<close>

definition scenario_weights :: RiskScoringWeights where
  "scenario_weights = \<lparr>inactivity = 3 / 10, authorityMismatch = 1 / 4,
                        orphanedPda = 1 / 4, rentRecoverable = 2 / 10\<rparr>"

definition scenario_thresholds :: RiskThresholds where
  "scenario_thresholds = \<lparr>low = 25, medium = 50, high = 75, critical = 90\<rparr>"

definition scenario_detector :: GhostDetector where
  "scenario_detector = \<lparr>currentSlot = 1000000, inactiveSlotThreshold = 500000,
                         weights = scenario_weights, thresholds = scenario_thresholds\<rparr>"

definition scenario_account :: PDAccountInfo where
  "scenario_account =
     \<lparr>pubkey = ''Acc1'', owner = ''Prog'', lamports = 2000000, data = [],
      executable = False, rentEpoch = 0, lastWriteSlot = None, isPDA = False,
      seeds = None, bump = None\<rparr>"

definition stale_orphan_account :: PDAccountInfo where
  "stale_orphan_account = scenario_account\<lparr>lastWriteSlot := Some 1, isPDA := True\<rparr>"

definition wealthy_orphan_account :: PDAccountInfo where
  "wealthy_orphan_account = stale_orphan_account\<lparr>lamports := 100000890880\<rparr>"

text \<open>A chain younger than the inactivity threshold, and an account last written in slot 0.\<close>

definition young_chain_detector :: GhostDetector where
  "young_chain_detector = scenario_detector\<lparr>currentSlot := 100\<rparr>"

definition genesis_account :: PDAccountInfo where
  "genesis_account = scenario_account\<lparr>lastWriteSlot := Some 0\<rparr>"

subsection \<open>A small graph\<close>

definition sample_profile :: "string \<Rightarrow> real \<Rightarrow> AccountRiskProfile" where
  "sample_profile k score =
     \<lparr>profile_pubkey = k, riskLevel = Low, confidenceScore = score, indicators = [],
      estimatedRecoverableSOL = 0\<rparr>"

definition sample_node :: "string \<Rightarrow> NodeType \<Rightarrow> AccountRiskProfile option \<Rightarrow> AccountGraphNode" where
  "sample_node k t p =
     \<lparr>node_id = k, node_pubkey = k, node_type = t, riskProfile = p,
      metadata = \<lparr>md_lamports = 0, md_owner = ''Prog'', lastActivity = None, md_isPDA = False\<rparr>\<rparr>"

definition sample_edge :: "string \<Rightarrow> string \<Rightarrow> AccountGraphEdge" where
  "sample_edge s t = \<lparr>source = s, target = t, relationship = Owns, edge_isActive = True\<rparr>"

definition sample_graph :: AccountGraph where
  "sample_graph =
     \<lparr>nodes = [sample_node ''Prog'' ProgramNode None,
               sample_node ''A'' AccountNode (Some (sample_profile ''A'' 10)),
               sample_node ''B'' AccountNode (Some (sample_profile ''B'' 80)),
               sample_node ''C'' PdaNode (Some (sample_profile ''C'' 80))],
      edges = [sample_edge ''Prog'' ''A'', sample_edge ''Prog'' ''B'', sample_edge ''Prog'' ''C''],
      programId = ''Prog'', scanTimestamp = 0, graph_currentSlot = 1000000\<rparr>"

text \<open>The three nodes and two edges that remain of \<open>sample_graph\<close> when ''A'' is dropped.\<close>

definition sample_graph_top :: AccountGraph where
  "sample_graph_top =
     sample_graph\<lparr>nodes := [sample_node ''Prog'' ProgramNode None,
                             sample_node ''B'' AccountNode (Some (sample_profile ''B'' 80)),
                             sample_node ''C'' PdaNode (Some (sample_profile ''C'' 80))],
                   edges := [sample_edge ''Prog'' ''B'', sample_edge ''Prog'' ''C'']\<rparr>"

subsection \<open>Accounts and authority relationships\<close>

definition sample_account :: "string \<Rightarrow> string \<Rightarrow> bool \<Rightarrow> string list option \<Rightarrow> PDAccountInfo" where
  "sample_account k own pda sds =
     \<lparr>pubkey = k, owner = own, lamports = 1000000, data = [], executable = False, rentEpoch = 0,
      lastWriteSlot = None, isPDA = pda, seeds = sds, bump = None\<rparr>"

definition ownerRel :: "string \<Rightarrow> string \<Rightarrow> AuthorityRelationship" where
  "ownerRel acc auth = \<lparr>account = acc, authority = auth, privilege = Owner, isActive = True\<rparr>"

definition signerRel :: "string \<Rightarrow> string \<Rightarrow> AuthorityRelationship" where
  "signerRel acc auth = \<lparr>account = acc, authority = auth, privilege = Signer, isActive = True\<rparr>"

text \<open>Two accounts that own each other.\<close>

definition mutual_owners :: "AuthorityRelationship list" where
  "mutual_owners = [ownerRel ''A'' ''B'', ownerRel ''B'' ''A'']"

subsection \<open>A derivation fixture\<close>

text \<open>
  A stand-in for the library's derivation in which addresses are byte strings: the derived
  address is the concatenation of the seed buffers and the program address, so that
  distinct candidates of the search derive distinct addresses.
\<close>

definition fixture_findProgramAddress :: "bytes list \<Rightarrow> bytes \<Rightarrow> (bytes \<times> nat) option" where
  "fixture_findProgramAddress seedBuffers progId = Some (concat seedBuffers @ progId, 255)"

definition fixture_newPublicKey :: "string \<Rightarrow> bytes option" where
  "fixture_newPublicKey s = Some (Buffer_from s)"

definition fixture_isOnCurve :: "bytes \<Rightarrow> bool" where
  "fixture_isOnCurve k = False"

definition fixture_programId :: bytes where
  "fixture_programId = Buffer_from ''PROG''"

definition fixture_account :: AccountInfo where
  "fixture_account =
     \<lparr>pubkey = ''vault'' @ [CHR 0xFE] @ ''PROG'', owner = ''PROG'', lamports = 2000000, data = [],
      executable = False, rentEpoch = 0, lastWriteSlot = None\<rparr>"

section \<open>Properties of the risk scorer\<close>

lemmas scorer_defs =
  generateRiskProfile_def checkInactivity_def checkOrphanedPDA_def checkRentRecoverable_def
  pushIndicator_def determineRiskLevel_def calculateRecoverableSOL_def

lemmas scenario_defs =
  scenario_weights_def scenario_thresholds_def scenario_detector_def scenario_account_def
  stale_orphan_account_def wealthy_orphan_account_def young_chain_detector_def
  genesis_account_def

subsection \<open>Recoverable balance and risk level\<close>

text \<open>
  Claim C1. For every account scored by \<open>generateRiskProfile\<close>: a positive
  \<open>estimatedRecoverableSOL\<close> implies that the risk level is High or Critical; at High or
  Critical the estimate is \<open>max(0, lamports - minRentExemptBalance) / 1e9\<close>; at Low or Medium
  it is 0, whether or not a rent-recoverable indicator was emitted.
\<close>

theorem recoverable_only_when_high_risk:
  "(estimatedRecoverableSOL (generateRiskProfile d acc m) > 0 \<longrightarrow>
      riskLevel (generateRiskProfile d acc m) \<in> {High, Critical}) \<and>
   (riskLevel (generateRiskProfile d acc m) \<in> {High, Critical} \<longrightarrow>
      estimatedRecoverableSOL (generateRiskProfile d acc m) =
        real_of_int (max 0 (lamports acc - m)) / 1000000000) \<and>
   (riskLevel (generateRiskProfile d acc m) \<in> {Low, Medium} \<longrightarrow>
      estimatedRecoverableSOL (generateRiskProfile d acc m) = 0)"
  by (auto simp: generateRiskProfile_def calculateRecoverableSOL_def Let_def)

text \<open>
  Both sides at concrete inputs: an orphaned, stale account holding 100 SOL above the rent
  minimum reaches High and reports the 100 SOL; the account of the first scenario stays
  Low, carries a rent-recoverable indicator and reports 0.
\<close>

theorem recoverable_only_when_high_risk_witness:
  "0 < estimatedRecoverableSOL (generateRiskProfile scenario_detector wealthy_orphan_account 890880) \<and>
   riskLevel (generateRiskProfile scenario_detector wealthy_orphan_account 890880) = High \<and>
   estimatedRecoverableSOL (generateRiskProfile scenario_detector wealthy_orphan_account 890880) = 100 \<and>
   riskLevel (generateRiskProfile scenario_detector scenario_account 890880) = Low \<and>
   RentRecoverable \<in>
     ind_type ` set (indicators (generateRiskProfile scenario_detector scenario_account 890880)) \<and>
   estimatedRecoverableSOL (generateRiskProfile scenario_detector scenario_account 890880) = 0"
  using recoverable_only_when_high_risk [of scenario_detector wealthy_orphan_account 890880]
        recoverable_only_when_high_risk [of scenario_detector scenario_account 890880]
  by (simp add: scorer_defs scenario_defs Let_def)

subsection \<open>The stale orphaned PDA scenario\<close>

text \<open>
  Claim C3, as stated, fails. With balance 2,000,000, rent minimum 890,880, a stale last
  activity, an orphaned PDA and the stated weights and thresholds, the rent indicator weighs
  0.00221824, the score is 55.00221824 and not about 55.22, the level is Medium and not
  High (the High threshold is 75), and the recoverable estimate is 0 and not
  (2,000,000 - 890,880) / 1e9.
\<close>

theorem stale_orphan_scenario_counterexample:
  "riskLevel (generateRiskProfile scenario_detector stale_orphan_account 890880) \<noteq> High \<and>
   estimatedRecoverableSOL (generateRiskProfile scenario_detector stale_orphan_account 890880)
     \<noteq> (2000000 - 890880) / 1000000000 \<and>
   \<not> \<bar>confidenceScore (generateRiskProfile scenario_detector stale_orphan_account 890880)
        - 5522 / 100\<bar> < 2 / 10"
  by (simp add: scorer_defs scenario_defs Let_def)

text \<open>
  Claim C3, amended. In that scenario the scorer emits inactivity (30), orphaned-PDA (25)
  and rent-recoverable (0.00221824) indicators, the confidence score is 55.00221824, the
  risk level is Medium and the estimated recoverable balance is 0.
\<close>

theorem stale_orphan_scenario:
  assumes "lamports acc = 2000000" and "isPDA acc"
    and "seeds acc = None \<or> seeds acc = Some []"
    and "lastWriteSlot acc = Some s" and "currentSlot d - s > inactiveSlotThreshold d"
    and "inactivity (weights d) = 3 / 10" and "orphanedPda (weights d) = 1 / 4"
    and "rentRecoverable (weights d) = 2 / 10"
    and "thresholds d = \<lparr>low = 25, medium = 50, high = 75, critical = 90\<rparr>"
  shows "map ind_type (indicators (generateRiskProfile d acc 890880)) =
       [Inactivity, OrphanedPda, RentRecoverable] \<and>
     map weight (indicators (generateRiskProfile d acc 890880)) = [30, 25, 221824 / 100000000] \<and>
     confidenceScore (generateRiskProfile d acc 890880) = 5500221824 / 100000000 \<and>
     riskLevel (generateRiskProfile d acc 890880) = Medium \<and>
     estimatedRecoverableSOL (generateRiskProfile d acc 890880) = 0"
  using assms by (auto simp: scorer_defs Let_def)

theorem stale_orphan_scenario_witness:
  "currentSlot scenario_detector - 1 > inactiveSlotThreshold scenario_detector \<and>
   confidenceScore (generateRiskProfile scenario_detector stale_orphan_account 890880)
     = 5500221824 / 100000000 \<and>
   riskLevel (generateRiskProfile scenario_detector stale_orphan_account 890880) = Medium \<and>
   estimatedRecoverableSOL (generateRiskProfile scenario_detector stale_orphan_account 890880) = 0"
  using stale_orphan_scenario [of stale_orphan_account 1 scenario_detector]
  by (simp add: scenario_defs)

subsection \<open>The unknown-activity scenario\<close>

text \<open>
  Claim C4, as stated, fails. The rent-recoverable weight
  \<open>0.2 * min(100, (1,109,120 / 1e9) * 10)\<close> is 0.00221824, not about 0.22, and the
  confidence score is 30.00221824, not about 30.22.
\<close>

theorem unknown_activity_scenario_counterexample:
  "map weight (indicators (generateRiskProfile scenario_detector scenario_account 890880))
     = [30, 221824 / 100000000] \<and>
   \<not> \<bar>221824 / 100000000 - 22 / 100\<bar> < (2 / 10 :: real) \<and>
   \<not> \<bar>confidenceScore (generateRiskProfile scenario_detector scenario_account 890880)
        - 3022 / 100\<bar> < 2 / 10"
  by (simp add: scorer_defs scenario_defs Let_def)

text \<open>
  Claim C4, amended. With balance 2,000,000, rent minimum 890,880, no known last activity,
  no PDA and the stated weights and thresholds, the scorer emits an inactivity indicator of
  weight 30 and a rent-recoverable indicator of weight
  \<open>0.2 * min(100, (1,109,120 / 1e9) * 10) = 0.00221824\<close>; the confidence score is
  30.00221824, the risk level is Low and the estimated recoverable balance is 0.
\<close>

theorem unknown_activity_scenario:
  assumes "lamports acc = 2000000" and "\<not> isPDA acc" and "lastWriteSlot acc = None"
    and "inactivity (weights d) = 3 / 10" and "rentRecoverable (weights d) = 2 / 10"
    and "thresholds d = \<lparr>low = 25, medium = 50, high = 75, critical = 90\<rparr>"
  shows "map ind_type (indicators (generateRiskProfile d acc 890880)) =
       [Inactivity, RentRecoverable] \<and>
     map weight (indicators (generateRiskProfile d acc 890880)) =
       [30, (2 / 10) * min 100 ((1109120 / 1000000000) * 10)] \<and>
     (2 / 10) * min 100 ((1109120 / 1000000000) * 10) = (221824 / 100000000 :: real) \<and>
     confidenceScore (generateRiskProfile d acc 890880) = 3000221824 / 100000000 \<and>
     riskLevel (generateRiskProfile d acc 890880) = Low \<and>
     estimatedRecoverableSOL (generateRiskProfile d acc 890880) = 0"
  using assms by (auto simp: scorer_defs Let_def)

theorem unknown_activity_scenario_witness:
  "confidenceScore (generateRiskProfile scenario_detector scenario_account 890880)
     = 3000221824 / 100000000 \<and>
   riskLevel (generateRiskProfile scenario_detector scenario_account 890880) = Low \<and>
   estimatedRecoverableSOL (generateRiskProfile scenario_detector scenario_account 890880) = 0"
  using unknown_activity_scenario [of scenario_account scenario_detector]
  by (simp add: scenario_defs)

subsection \<open>The inactivity indicator\<close>

text \<open>When \<open>checkInactivity\<close> emits, and with which weight.\<close>

lemma checkInactivity_weight:
  "checkInactivity d acc = Some i \<Longrightarrow>
     ind_type i = Inactivity \<and> weight i = inactivity (weights d) * 100"
  by (auto simp: checkInactivity_def Let_def split: option.splits if_splits)

lemma checkInactivity_emits_iff:
  "checkInactivity d acc \<noteq> None \<longleftrightarrow>
     (lastWriteSlot acc = None \<or> lastWriteSlot acc = Some 0 \<or>
      (\<exists>s. lastWriteSlot acc = Some s \<and> currentSlot d - s > inactiveSlotThreshold d))"
  by (auto simp: checkInactivity_def Let_def split: option.splits if_splits)

text \<open>
  Claim C5 says that an inactivity indicator is emitted if and only if no last-activity
  position is known or \<open>current - last > threshold\<close>. The code departs from it for a last
  activity in slot 0: the position is known and \<open>100 - 0\<close> does not exceed the threshold
  500000, yet the indicator of the unknown-activity branch is emitted.
\<close>

theorem checkInactivity_slot_zero:
  "lastWriteSlot genesis_account = Some 0 \<and>
   \<not> currentSlot young_chain_detector - 0 > inactiveSlotThreshold young_chain_detector \<and>
   checkInactivity young_chain_detector genesis_account =
     Some \<lparr>ind_type = Inactivity, reason = NoWriteActivityDetected, weight = 30\<rparr>"
  by (simp add: scorer_defs scenario_defs Let_def)

subsection \<open>The confidence score\<close>

lemma confidenceScore_eq:
  "confidenceScore (generateRiskProfile d acc m) =
     min 100 (optWeight (checkInactivity d acc) + optWeight (checkOrphanedPDA d acc)
              + optWeight (checkRentRecoverable d acc m))"
  by (simp add: generateRiskProfile_def pushIndicator_def optWeight_def Let_def
           split: option.splits)

lemma indicators_sum:
  "sum_list (map weight (indicators (generateRiskProfile d acc m))) =
     optWeight (checkInactivity d acc) + optWeight (checkOrphanedPDA d acc)
              + optWeight (checkRentRecoverable d acc m)"
  by (simp add: generateRiskProfile_def pushIndicator_def optWeight_def Let_def
           split: option.splits)

lemma optWeight_inactivity_nonneg:
  "0 \<le> inactivity (weights d) \<Longrightarrow> 0 \<le> optWeight (checkInactivity d acc)"
  by (simp add: optWeight_def checkInactivity_def Let_def split: option.splits)

lemma optWeight_orphaned_nonneg:
  "0 \<le> orphanedPda (weights d) \<Longrightarrow> 0 \<le> optWeight (checkOrphanedPDA d acc)"
  by (simp add: optWeight_def checkOrphanedPDA_def Let_def split: option.splits)

lemma optWeight_rent_nonneg:
  "0 \<le> rentRecoverable (weights d) \<Longrightarrow> 0 \<le> optWeight (checkRentRecoverable d acc m)"
  by (simp add: optWeight_def checkRentRecoverable_def Let_def split: option.splits)

lemma optWeight_inactivity_mono:
  "currentSlot d' = currentSlot d \<Longrightarrow> inactiveSlotThreshold d' = inactiveSlotThreshold d \<Longrightarrow>
   inactivity (weights d) \<le> inactivity (weights d') \<Longrightarrow>
   optWeight (checkInactivity d acc) \<le> optWeight (checkInactivity d' acc)"
  by (simp add: optWeight_def checkInactivity_def Let_def split: option.splits)

lemma optWeight_orphaned_mono:
  "orphanedPda (weights d) \<le> orphanedPda (weights d') \<Longrightarrow>
   optWeight (checkOrphanedPDA d acc) \<le> optWeight (checkOrphanedPDA d' acc)"
  by (simp add: optWeight_def checkOrphanedPDA_def Let_def split: option.splits)

lemma optWeight_rent_mono:
  "rentRecoverable (weights d) \<le> rentRecoverable (weights d') \<Longrightarrow>
   optWeight (checkRentRecoverable d acc m) \<le> optWeight (checkRentRecoverable d' acc m)"
  by (auto simp: optWeight_def checkRentRecoverable_def Let_def min_def
           intro!: mult_right_mono split: option.splits)

text \<open>The score does not decrease when the weights grow pointwise, all else equal.\<close>

lemma confidenceScore_mono:
  assumes "currentSlot d' = currentSlot d"
    and "inactiveSlotThreshold d' = inactiveSlotThreshold d"
    and "inactivity (weights d) \<le> inactivity (weights d')"
    and "orphanedPda (weights d) \<le> orphanedPda (weights d')"
    and "rentRecoverable (weights d) \<le> rentRecoverable (weights d')"
  shows "confidenceScore (generateRiskProfile d acc m)
       \<le> confidenceScore (generateRiskProfile d' acc m)"
proof -
  have "optWeight (checkInactivity d acc) + optWeight (checkOrphanedPDA d acc)
              + optWeight (checkRentRecoverable d acc m)
     \<le> optWeight (checkInactivity d' acc) + optWeight (checkOrphanedPDA d' acc)
              + optWeight (checkRentRecoverable d' acc m)"
    using optWeight_inactivity_mono [OF assms(1,2,3), of acc]
          optWeight_orphaned_mono [OF assms(4), of acc]
          optWeight_rent_mono [OF assms(5), of acc m]
    by linarith
  then show ?thesis
    unfolding confidenceScore_eq by (simp add: min_le_iff_disj)
qed

text \<open>
  Claim C6. For every account and every configuration with non-negative weights, the
  confidence score lies in [0, 100], equals \<open>min(100, sum of the emitted indicator weights)\<close>,
  and does not decrease when any single configured weight is increased, all other inputs
  held fixed.
\<close>

theorem confidenceScore_bounded_monotone:
  assumes "0 \<le> inactivity (weights d)" and "0 \<le> authorityMismatch (weights d)"
    and "0 \<le> orphanedPda (weights d)" and "0 \<le> rentRecoverable (weights d)"
  shows "0 \<le> confidenceScore (generateRiskProfile d acc m) \<and>
     confidenceScore (generateRiskProfile d acc m) \<le> 100 \<and>
     confidenceScore (generateRiskProfile d acc m) =
       min 100 (sum_list (map weight (indicators (generateRiskProfile d acc m)))) \<and>
     (\<forall>w'. inactivity (weights d) \<le> w' \<longrightarrow>
        confidenceScore (generateRiskProfile d acc m) \<le>
        confidenceScore
          (generateRiskProfile (d\<lparr>weights := (weights d)\<lparr>inactivity := w'\<rparr>\<rparr>) acc m)) \<and>
     (\<forall>w'. authorityMismatch (weights d) \<le> w' \<longrightarrow>
        confidenceScore (generateRiskProfile d acc m) \<le>
        confidenceScore
          (generateRiskProfile (d\<lparr>weights := (weights d)\<lparr>authorityMismatch := w'\<rparr>\<rparr>) acc m)) \<and>
     (\<forall>w'. orphanedPda (weights d) \<le> w' \<longrightarrow>
        confidenceScore (generateRiskProfile d acc m) \<le>
        confidenceScore
          (generateRiskProfile (d\<lparr>weights := (weights d)\<lparr>orphanedPda := w'\<rparr>\<rparr>) acc m)) \<and>
     (\<forall>w'. rentRecoverable (weights d) \<le> w' \<longrightarrow>
        confidenceScore (generateRiskProfile d acc m) \<le>
        confidenceScore
          (generateRiskProfile (d\<lparr>weights := (weights d)\<lparr>rentRecoverable := w'\<rparr>\<rparr>) acc m))"
proof -
  let ?total = "optWeight (checkInactivity d acc) + optWeight (checkOrphanedPDA d acc)
              + optWeight (checkRentRecoverable d acc m)"
  have nonneg: "0 \<le> ?total"
    using optWeight_inactivity_nonneg [OF assms(1), of acc]
          optWeight_orphaned_nonneg [OF assms(3), of acc]
          optWeight_rent_nonneg [OF assms(4), of acc m]
    by linarith
  have lo: "0 \<le> confidenceScore (generateRiskProfile d acc m)"
    unfolding confidenceScore_eq using nonneg by simp
  have hi: "confidenceScore (generateRiskProfile d acc m) \<le> 100"
    unfolding confidenceScore_eq by simp
  have total: "confidenceScore (generateRiskProfile d acc m) =
       min 100 (sum_list (map weight (indicators (generateRiskProfile d acc m))))"
    unfolding confidenceScore_eq indicators_sum ..
  have m1: "\<forall>w'. inactivity (weights d) \<le> w' \<longrightarrow>
        confidenceScore (generateRiskProfile d acc m) \<le>
        confidenceScore
          (generateRiskProfile (d\<lparr>weights := (weights d)\<lparr>inactivity := w'\<rparr>\<rparr>) acc m)"
    by (intro allI impI confidenceScore_mono) simp_all
  have m2: "\<forall>w'. authorityMismatch (weights d) \<le> w' \<longrightarrow>
        confidenceScore (generateRiskProfile d acc m) \<le>
        confidenceScore
          (generateRiskProfile (d\<lparr>weights := (weights d)\<lparr>authorityMismatch := w'\<rparr>\<rparr>) acc m)"
    by (intro allI impI confidenceScore_mono) simp_all
  have m3: "\<forall>w'. orphanedPda (weights d) \<le> w' \<longrightarrow>
        confidenceScore (generateRiskProfile d acc m) \<le>
        confidenceScore
          (generateRiskProfile (d\<lparr>weights := (weights d)\<lparr>orphanedPda := w'\<rparr>\<rparr>) acc m)"
    by (intro allI impI confidenceScore_mono) simp_all
  have m4: "\<forall>w'. rentRecoverable (weights d) \<le> w' \<longrightarrow>
        confidenceScore (generateRiskProfile d acc m) \<le>
        confidenceScore
          (generateRiskProfile (d\<lparr>weights := (weights d)\<lparr>rentRecoverable := w'\<rparr>\<rparr>) acc m)"
    by (intro allI impI confidenceScore_mono) simp_all
  show ?thesis using lo hi total m1 m2 m3 m4 by blast
qed

text \<open>
  At the first scenario: the score 30.00221824 is the sum of the two emitted weights, and
  raising the inactivity weight from 0.3 to 0.5 raises the score to 50.00221824.
\<close>

theorem confidenceScore_bounded_monotone_witness:
  "0 \<le> inactivity (weights scenario_detector) \<and>
   0 \<le> authorityMismatch (weights scenario_detector) \<and>
   0 \<le> orphanedPda (weights scenario_detector) \<and>
   0 \<le> rentRecoverable (weights scenario_detector) \<and>
   inactivity (weights scenario_detector) \<le> 1 / 2 \<and>
   confidenceScore (generateRiskProfile scenario_detector scenario_account 890880)
     = 3000221824 / 100000000 \<and>
   confidenceScore
     (generateRiskProfile
        (scenario_detector\<lparr>weights := (weights scenario_detector)\<lparr>inactivity := 1 / 2\<rparr>\<rparr>)
        scenario_account 890880) = 5000221824 / 100000000 \<and>
   confidenceScore (generateRiskProfile scenario_detector scenario_account 890880) \<le>
     confidenceScore
       (generateRiskProfile
          (scenario_detector\<lparr>weights := (weights scenario_detector)\<lparr>inactivity := 1 / 2\<rparr>\<rparr>)
          scenario_account 890880)"
  using confidenceScore_bounded_monotone [of scenario_detector scenario_account 890880]
  by (simp add: scorer_defs scenario_defs Let_def)

section \<open>Properties of the graph filter\<close>

lemma slice0_take: "0 \<le> e \<Longrightarrow> e \<le> int (length xs) \<Longrightarrow> slice0 xs e = take (nat e) xs"
  by (simp add: slice0_def Let_def min_def)

lemma length_others:
  assumes "length (filter (\<lambda>n. node_type n = ProgramNode) ns) = 1"
  shows "length (filter (\<lambda>n. node_type n \<noteq> ProgramNode) ns) = length ns - 1"
  using sum_length_filter_compl [of "\<lambda>n. node_type n = ProgramNode" ns] assms by simp

lemma find_program:
  assumes "length (filter (\<lambda>n. node_type n = ProgramNode) ns) = 1"
  shows "\<exists>p. find (\<lambda>n. node_type n = ProgramNode) ns = Some p \<and> p \<in> set ns \<and>
             node_type p = ProgramNode"
proof (cases "find (\<lambda>n. node_type n = ProgramNode) ns")
  case None
  then have "filter (\<lambda>n. node_type n = ProgramNode) ns = []"
    by (simp add: find_None_iff filter_empty_conv)
  with assms show ?thesis by simp
next
  case (Some p)
  then show ?thesis by (auto simp: find_Some_iff)
qed

lemma sortByScoreDesc_mset: "mset (sortByScoreDesc ns) = mset ns"
  by (simp add: sortByScoreDesc_def)

lemma sortByScoreDesc_length: "length (sortByScoreDesc ns) = length ns"
  by (simp add: sortByScoreDesc_def)

lemma sortByScoreDesc_sorted:
  "sorted_wrt (\<lambda>a b. nodeScore b \<le> nodeScore a) (sortByScoreDesc ns)"
  using sorted_sort_key [of "\<lambda>n. - nodeScore n" ns]
  by (simp add: sortByScoreDesc_def sorted_map)

lemma sortByScoreDesc_stable:
  "filter (\<lambda>n. nodeScore n = k) (sortByScoreDesc ns) = filter (\<lambda>n. nodeScore n = k) ns"
  using sort_key_stable [of "\<lambda>n. - nodeScore n" "- k" ns]
  by (simp add: sortByScoreDesc_def)

lemma take_top:
  assumes "sorted_wrt (\<lambda>a b. nodeScore b \<le> nodeScore a) xs"
  shows "\<forall>x \<in> set (take k xs). \<forall>y \<in> set (drop k xs). nodeScore y \<le> nodeScore x"
proof -
  have "sorted_wrt (\<lambda>a b. nodeScore b \<le> nodeScore a) (take k xs @ drop k xs)"
    using assms by simp
  then show ?thesis unfolding sorted_wrt_append by blast
qed

lemma mset_minus_take: "mset xs - mset (take k xs) = mset (drop k xs)"
proof -
  have "mset xs = mset (take k xs) + mset (drop k xs)"
    by (metis append_take_drop_id mset_append)
  then show ?thesis by simp
qed

lemma filter_take_prefix: "prefix (filter P (take k xs)) (filter P xs)"
proof -
  have "filter P xs = filter P (take k xs) @ filter P (drop k xs)"
    by (metis append_take_drop_id filter_append)
  then show ?thesis by (simp add: prefix_def)
qed

lemmas sample_defs =
  sample_profile_def sample_node_def sample_edge_def sample_graph_def sample_graph_top_def
  programNodeCount_def

text \<open>
  Claim C2, as stated for every cap, fails at the cap 0: the graph has 4 nodes, more than
  the cap, and the filter returns 3 nodes (\<open>slice(0, -1)\<close> drops the last of the sorted
  nodes), not 0.
\<close>

theorem filterGraph_cap_zero_counterexample:
  "programNodeCount sample_graph = 1 \<and>
   int (length (nodes sample_graph)) > 0 \<and>
   filterGraphForVisualization sample_graph 0 True = Inr sample_graph_top \<and>
   int (length (nodes sample_graph_top)) \<noteq> 0"
  by (simp add: filterGraphForVisualization_def slice0_def sortByScoreDesc_def nodeScore_def
                sample_defs Let_def)

text \<open>
  Claim C2, amended to caps \<open>C \<ge> 1\<close>. For every graph \<open>G\<close> with \<open>N\<close> nodes, exactly one of
  type \<open>program\<close>: if \<open>N \<le> C\<close> the filter returns \<open>G\<close> unchanged; if \<open>N > C\<close> the result is
  \<open>G\<close> with new nodes and edges, where the nodes are the program node followed by \<open>rest\<close>,
  \<open>C\<close> nodes in all; \<open>rest\<close> is drawn from the other nodes, is in descending order of
  confidence score, no dropped node scores higher than a retained one, and among nodes of
  equal score the retained ones are the first in the original order; the edges are exactly
  those of \<open>G\<close> with both endpoints among the retained node ids.
\<close>

theorem filterGraph_capped:
  assumes one: "programNodeCount G = 1"
    and cap: "1 \<le> C"
  shows "(int (length (nodes G)) \<le> C \<longrightarrow> filterGraphForVisualization G C True = Inr G) \<and>
     (int (length (nodes G)) > C \<longrightarrow>
        (\<exists>p rest.
           filterGraphForVisualization G C True =
             Inr (G\<lparr>nodes := p # rest,
                    edges := filter (\<lambda>e. source e \<in> node_id ` set (p # rest) \<and>
                                         target e \<in> node_id ` set (p # rest)) (edges G)\<rparr>) \<and>
           p \<in> set (nodes G) \<and> node_type p = ProgramNode \<and>
           int (length (p # rest)) = C \<and>
           mset rest \<subseteq># mset (filter (\<lambda>n. node_type n \<noteq> ProgramNode) (nodes G)) \<and>
           sorted_wrt (\<lambda>a b. nodeScore b \<le> nodeScore a) rest \<and>
           (\<forall>x \<in> set rest.
              \<forall>y \<in># mset (filter (\<lambda>n. node_type n \<noteq> ProgramNode) (nodes G)) - mset rest.
                nodeScore y \<le> nodeScore x) \<and>
           (\<forall>k. prefix (filter (\<lambda>n. nodeScore n = k) rest)
                       (filter (\<lambda>n. nodeScore n = k)
                          (filter (\<lambda>n. node_type n \<noteq> ProgramNode) (nodes G))))))"
proof (intro conjI impI)
  assume "int (length (nodes G)) \<le> C"
  then show "filterGraphForVisualization G C True = Inr G"
    by (simp add: filterGraphForVisualization_def)
next
  assume big: "int (length (nodes G)) > C"
  define others where "others = filter (\<lambda>n. node_type n \<noteq> ProgramNode) (nodes G)"
  define srt where "srt = sortByScoreDesc others"
  define k where "k = nat (C - 1)"
  define rest where "rest = take k srt"
  have one': "length (filter (\<lambda>n. node_type n = ProgramNode) (nodes G)) = 1"
    using one by (simp add: programNodeCount_def)
  obtain p where p: "find (\<lambda>n. node_type n = ProgramNode) (nodes G) = Some p"
    "p \<in> set (nodes G)" "node_type p = ProgramNode"
    using find_program [OF one'] by blast
  have len_others: "length others = length (nodes G) - 1"
    unfolding others_def by (rule length_others [OF one'])
  have len_srt: "length srt = length (nodes G) - 1"
    by (simp add: srt_def sortByScoreDesc_length len_others)
  have k_le: "k \<le> length srt"
    using big cap by (simp add: k_def len_srt)
  have slice: "slice0 srt (C - 1) = rest"
    unfolding rest_def k_def
    using big cap by (intro slice0_take) (simp_all add: len_srt)
  have res: "filterGraphForVisualization G C True =
             Inr (G\<lparr>nodes := p # rest,
                    edges := filter (\<lambda>e. source e \<in> node_id ` set (p # rest) \<and>
                                         target e \<in> node_id ` set (p # rest)) (edges G)\<rparr>)"
    using big p(1) slice
    by (simp add: filterGraphForVisualization_def Let_def others_def srt_def)
  have len: "int (length (p # rest)) = C"
    using k_le cap by (simp add: rest_def k_def)
  have sub: "mset rest \<subseteq># mset others"
  proof -
    have "mset rest \<subseteq># mset srt"
      unfolding rest_def by (metis append_take_drop_id mset_append mset_subset_eq_add_left)
    then show ?thesis by (simp add: srt_def sortByScoreDesc_mset)
  qed
  have srt_sorted: "sorted_wrt (\<lambda>a b. nodeScore b \<le> nodeScore a) srt"
    unfolding srt_def by (rule sortByScoreDesc_sorted)
  have sorted: "sorted_wrt (\<lambda>a b. nodeScore b \<le> nodeScore a) rest"
    unfolding rest_def by (rule sorted_wrt_take [OF srt_sorted])
  have dropped: "mset others - mset rest = mset (drop k srt)"
    using mset_minus_take [of srt k] by (simp add: rest_def srt_def sortByScoreDesc_mset)
  have top: "\<forall>x \<in> set rest. \<forall>y \<in># mset others - mset rest. nodeScore y \<le> nodeScore x"
    using take_top [OF srt_sorted, of k] dropped by (simp add: rest_def)
  have ties: "\<forall>key. prefix (filter (\<lambda>n. nodeScore n = key) rest)
                       (filter (\<lambda>n. nodeScore n = key) others)"
  proof
    fix key
    have "prefix (filter (\<lambda>n. nodeScore n = key) rest) (filter (\<lambda>n. nodeScore n = key) srt)"
      unfolding rest_def by (rule filter_take_prefix)
    then show "prefix (filter (\<lambda>n. nodeScore n = key) rest)
                       (filter (\<lambda>n. nodeScore n = key) others)"
      by (simp add: srt_def sortByScoreDesc_stable)
  qed
  show "\<exists>p rest.
           filterGraphForVisualization G C True =
             Inr (G\<lparr>nodes := p # rest,
                    edges := filter (\<lambda>e. source e \<in> node_id ` set (p # rest) \<and>
                                         target e \<in> node_id ` set (p # rest)) (edges G)\<rparr>) \<and>
           p \<in> set (nodes G) \<and> node_type p = ProgramNode \<and>
           int (length (p # rest)) = C \<and>
           mset rest \<subseteq># mset (filter (\<lambda>n. node_type n \<noteq> ProgramNode) (nodes G)) \<and>
           sorted_wrt (\<lambda>a b. nodeScore b \<le> nodeScore a) rest \<and>
           (\<forall>x \<in> set rest.
              \<forall>y \<in># mset (filter (\<lambda>n. node_type n \<noteq> ProgramNode) (nodes G)) - mset rest.
                nodeScore y \<le> nodeScore x) \<and>
           (\<forall>k. prefix (filter (\<lambda>n. nodeScore n = k) rest)
                       (filter (\<lambda>n. nodeScore n = k)
                          (filter (\<lambda>n. node_type n \<noteq> ProgramNode) (nodes G))))"
    using res p(2,3) len sub sorted top ties unfolding others_def by blast
qed

text \<open>
  On the sample graph (scores 10, 80, 80): the cap 3 keeps the program node and the two
  nodes of score 80 in their original order, with the two edges between them; the cap 4
  returns the graph as it is.
\<close>

theorem filterGraph_capped_witness:
  "programNodeCount sample_graph = 1 \<and> (1::int) \<le> 3 \<and>
   int (length (nodes sample_graph)) > 3 \<and>
   filterGraphForVisualization sample_graph 3 True = Inr sample_graph_top \<and>
   int (length (nodes sample_graph_top)) = 3 \<and>
   filterGraphForVisualization sample_graph 4 True = Inr sample_graph"
  using filterGraph_capped [of sample_graph 3] filterGraph_capped [of sample_graph 4]
  by (simp add: filterGraphForVisualization_def slice0_def sortByScoreDesc_def nodeScore_def
                sample_defs Let_def)

section \<open>Properties of the authority tracker\<close>

lemmas authority_defs =
  sample_account_def ownerRel_def signerRel_def mutual_owners_def

subsection \<open>Legacy authorities\<close>

text \<open>
  Claim C7. \<open>detectLegacyAuthorities\<close> returns exactly the relationships whose authority
  is absent from the accounts' pubkeys and differs from the program address: such a
  relationship is returned as often as it occurs in the input and in the input's order, and
  a relationship whose authority is the program address is never returned, whatever the
  account set.
\<close>

theorem detectLegacyAuthorities_exact:
  "(rel \<in> set (detectLegacyAuthorities progId relationships accounts) \<longleftrightarrow>
      rel \<in> set relationships \<and> authority rel \<notin> pubkey ` set accounts \<and>
      authority rel \<noteq> progId) \<and>
   (\<forall>r \<in> set relationships. authority r = progId \<longrightarrow>
      r \<notin> set (detectLegacyAuthorities progId relationships accounts)) \<and>
   subseq (detectLegacyAuthorities progId relationships accounts) relationships \<and>
   count (mset (detectLegacyAuthorities progId relationships accounts)) rel =
     (if authority rel \<notin> pubkey ` set accounts \<and> authority rel \<noteq> progId
      then count (mset relationships) rel else 0)"
  by (auto simp: detectLegacyAuthorities_def Let_def count_mset)

text \<open>
  With accounts ''A'' and ''B'' and program ''Prog'': the authority ''Gone'' is reported,
  the program and the account ''A'' are not.
\<close>

theorem detectLegacyAuthorities_exact_witness:
  "detectLegacyAuthorities ''Prog''
     [ownerRel ''A'' ''Prog'', ownerRel ''A'' ''Gone'', ownerRel ''B'' ''A'']
     [sample_account ''A'' ''Prog'' False None, sample_account ''B'' ''A'' False None]
   = [ownerRel ''A'' ''Gone''] \<and>
   ownerRel ''A'' ''Gone'' \<in> set (detectLegacyAuthorities ''Prog''
     [ownerRel ''A'' ''Prog'', ownerRel ''A'' ''Gone'', ownerRel ''B'' ''A'']
     [sample_account ''A'' ''Prog'' False None, sample_account ''B'' ''A'' False None]) \<and>
   ownerRel ''A'' ''Prog'' \<notin> set (detectLegacyAuthorities ''Prog''
     [ownerRel ''A'' ''Prog'', ownerRel ''A'' ''Gone'', ownerRel ''B'' ''A'']
     [sample_account ''A'' ''Prog'' False None, sample_account ''B'' ''A'' False None])"
  using detectLegacyAuthorities_exact [of "ownerRel ''A'' ''Gone''" "''Prog''"
     "[ownerRel ''A'' ''Prog'', ownerRel ''A'' ''Gone'', ownerRel ''B'' ''A'']"
     "[sample_account ''A'' ''Prog'' False None, sample_account ''B'' ''A'' False None]"]
  by (simp add: detectLegacyAuthorities_def authority_defs)

subsection \<open>Authority chains\<close>

text \<open>Every chain the exploration returns extends the chain it was called with.\<close>

lemma buildChain_prefix:
  "c \<in> set (buildChain relationships maxDepth current chain depth) \<Longrightarrow> prefix chain c"
proof (induction relationships maxDepth current chain depth rule: buildChain.induct)
  case (1 relationships maxDepth current chain depth)
  let ?auths = "filter (\<lambda>rel. account rel = current \<and> privilege rel = Owner) relationships"
  have eq: "buildChain relationships maxDepth current chain depth =
     (if depth \<ge> maxDepth then [chain]
      else if length ?auths = 0 then [chain]
      else concat (map (\<lambda>auth.
                          if authority auth \<notin> set chain then
                            buildChain relationships maxDepth (authority auth)
                              (chain @ [authority auth]) (depth + 1)
                          else [])
                       ?auths))"
    by (subst buildChain.simps) (simp only: Let_def)
  have c_in: "c \<in> set (if depth \<ge> maxDepth then [chain]
      else if length ?auths = 0 then [chain]
      else concat (map (\<lambda>auth.
                          if authority auth \<notin> set chain then
                            buildChain relationships maxDepth (authority auth)
                              (chain @ [authority auth]) (depth + 1)
                          else [])
                       ?auths))"
    using "1.prems" unfolding eq .
  show ?case
  proof (cases "depth \<ge> maxDepth \<or> length ?auths = 0")
    case True
    then show ?thesis using c_in by (auto simp del: buildChain.simps split: if_splits)
  next
    case False
    then obtain auth where
      a: "auth \<in> set ?auths" "authority auth \<notin> set chain"
         "c \<in> set (buildChain relationships maxDepth (authority auth)
                      (chain @ [authority auth]) (depth + 1))"
      using c_in by (auto simp del: buildChain.simps split: if_splits)
    have "prefix (chain @ [authority auth]) c"
      using "1.IH" [OF _ refl _ a(1) a(2) a(3)] False by (simp del: buildChain.simps)
    then show ?thesis by (rule append_prefixD)
  qed
qed

lemma buildAuthorityChains_start:
  "c \<in> set (buildAuthorityChains startAccount relationships maxDepth) \<Longrightarrow>
     prefix [startAccount] c"
  unfolding buildAuthorityChains_def by (rule buildChain_prefix)

text \<open>
  Claim C9 says that every terminated branch contributes its chain, including a branch
  terminated by cycle detection. The code pushes the chain when the depth is exhausted and
  when no owner edge exists, but not when the next authority is already in the chain: for
  two accounts that own each other the branch ''A'', ''B'' ends at the cycle back to ''A''
  and nothing is returned.
\<close>

theorem buildAuthorityChains_drops_cycle:
  "buildAuthorityChains ''A'' mutual_owners 5 = [] \<and>
   [''A'', ''B''] \<notin> set (buildAuthorityChains ''A'' mutual_owners 5)"
  by (simp add: buildAuthorityChains_def authority_defs)

subsection \<open>Active relationships\<close>

lemma accountRelationships_active:
  "r \<in> set (accountRelationships progId acc) \<Longrightarrow> isActive r"
  by (auto simp: accountRelationships_def split: if_splits)

lemma buildAuthorityRelationships_active:
  "r \<in> set (buildAuthorityRelationships progId accounts) \<Longrightarrow> isActive r"
  by (auto simp: buildAuthorityRelationships_def dest: accountRelationships_active)

lemma no_inactive:
  "filter (\<lambda>a. \<not> isActive a) (buildAuthorityRelationships progId accounts) = []"
  by (auto simp: filter_empty_conv dest: buildAuthorityRelationships_active)

text \<open>
  Claim C10. Every relationship that \<open>buildAuthorityRelationships\<close> produces is active,
  the owner relationships of accounts whose owner differs from their address and the
  signer relationships of PDAs with seeds alike; \<open>detectLegacyAuthorities\<close> returns a
  subsequence of its input, so it changes no relationship; hence the authorities of a scan
  result contain no inactive relationship, and the report's authority section consists
  of the heading, the total and the closing rule, without the inactive/legacy line.
\<close>

theorem authorities_always_active:
  "(\<forall>r \<in> set (buildAuthorityRelationships progId accounts). isActive r) \<and>
   (\<forall>acc \<in> set accounts. owner acc \<noteq> pubkey acc \<longrightarrow>
      \<lparr>account = pubkey acc, authority = owner acc, privilege = Owner, isActive = True\<rparr>
        \<in> set (buildAuthorityRelationships progId accounts)) \<and>
   (\<forall>acc \<in> set accounts. isPDA acc \<and> seeds acc \<noteq> None \<longrightarrow>
      \<lparr>account = pubkey acc, authority = progId, privilege = Signer, isActive = True\<rparr>
        \<in> set (buildAuthorityRelationships progId accounts)) \<and>
   subseq (detectLegacyAuthorities progId relationships accounts) relationships \<and>
   filter (\<lambda>a. \<not> isActive a) (scanResultAuthorities progId accounts) = [] \<and>
   authorityAnalysisLines (scanResultAuthorities progId accounts) =
     [authorityHeading, [],
      ''Total authority relationships tracked: **'' @
        showNat (length (scanResultAuthorities progId accounts)) @ ''**'', [], ''---'', []]"
proof -
  have a: "\<forall>r \<in> set (buildAuthorityRelationships progId accounts). isActive r"
    by (simp add: buildAuthorityRelationships_active)
  have b: "\<forall>acc \<in> set accounts. owner acc \<noteq> pubkey acc \<longrightarrow>
      \<lparr>account = pubkey acc, authority = owner acc, privilege = Owner, isActive = True\<rparr>
        \<in> set (buildAuthorityRelationships progId accounts)"
    by (auto simp: buildAuthorityRelationships_def accountRelationships_def)
  have c: "\<forall>acc \<in> set accounts. isPDA acc \<and> seeds acc \<noteq> None \<longrightarrow>
      \<lparr>account = pubkey acc, authority = progId, privilege = Signer, isActive = True\<rparr>
        \<in> set (buildAuthorityRelationships progId accounts)"
    by (auto simp: buildAuthorityRelationships_def accountRelationships_def)
  have d: "subseq (detectLegacyAuthorities progId relationships accounts) relationships"
    by (simp add: detectLegacyAuthorities_def Let_def)
  have e: "filter (\<lambda>a. \<not> isActive a) (scanResultAuthorities progId accounts) = []"
    by (simp add: scanResultAuthorities_def no_inactive)
  have f: "authorityAnalysisLines (scanResultAuthorities progId accounts) =
     [authorityHeading, [],
      ''Total authority relationships tracked: **'' @
        showNat (length (scanResultAuthorities progId accounts)) @ ''**'', [], ''---'', []]"
    unfolding authorityAnalysisLines_def Let_def e by simp
  show ?thesis using a b c d e f by blast
qed

lemma digit_two: "char_of (50::nat) = CHR ''2''"
  by code_simp

text \<open>
  A PDA with recovered seeds owned by the program, and an account that owns itself: two
  relationships, both active, and a report section of six lines.
\<close>

theorem authorities_always_active_witness:
  "buildAuthorityRelationships ''Prog''
     [sample_account ''A'' ''Prog'' True (Some [''vault'']), sample_account ''B'' ''B'' False None]
   = [ownerRel ''A'' ''Prog'', signerRel ''A'' ''Prog''] \<and>
   isActive (ownerRel ''A'' ''Prog'') \<and> isActive (signerRel ''A'' ''Prog'') \<and>
   authorityAnalysisLines (scanResultAuthorities ''Prog''
     [sample_account ''A'' ''Prog'' True (Some [''vault'']), sample_account ''B'' ''B'' False None])
   = [authorityHeading, [], ''Total authority relationships tracked: **2**'', [], ''---'', []]"
  using authorities_always_active [of "''Prog''"
     "[sample_account ''A'' ''Prog'' True (Some [''vault'']), sample_account ''B'' ''B'' False None]"
     "[]"]
  by (simp add: buildAuthorityRelationships_def accountRelationships_def
                scanResultAuthorities_def authority_defs digit_two)

section \<open>Properties of the seed search\<close>

lemma bumpLoop_None_iff:
  "bumpLoop fpa pid t sp n = None \<longleftrightarrow> (\<forall>b \<le> n. \<not> candidateMatches fpa pid t sp b)"
  by (induction n) (auto simp: le_Suc_eq)

lemma bumpLoop_Some_iff:
  "bumpLoop fpa pid t sp n = Some b \<longleftrightarrow>
     b \<le> n \<and> candidateMatches fpa pid t sp b \<and>
     (\<forall>b'. b < b' \<and> b' \<le> n \<longrightarrow> \<not> candidateMatches fpa pid t sp b')"
proof (induction n)
  case 0
  then show ?case by auto
next
  case (Suc n)
  show ?case
  proof (cases "candidateMatches fpa pid t sp (Suc n)")
    case True
    then show ?thesis by (auto simp: le_Suc_eq)
  next
    case False
    then show ?thesis using Suc by (auto simp: le_Suc_eq)
  qed
qed

lemma patternLoop_None_iff:
  "patternLoop fpa pid t sps = None \<longleftrightarrow>
     (\<forall>sp \<in> set sps. \<forall>b \<le> 255. \<not> candidateMatches fpa pid t sp b)"
proof (induction sps)
  case Nil
  then show ?case by simp
next
  case (Cons a sps)
  show ?case
  proof (cases "bumpLoop fpa pid t a 255")
    case None
    then have "\<forall>b \<le> 255. \<not> candidateMatches fpa pid t a b"
      by (simp add: bumpLoop_None_iff)
    then show ?thesis using Cons None by simp
  next
    case (Some b0)
    then have "b0 \<le> 255 \<and> candidateMatches fpa pid t a b0"
      by (simp add: bumpLoop_Some_iff)
    then show ?thesis using Some by auto
  qed
qed

lemma patternLoop_skip:
  assumes "\<forall>sp' \<in> set pre. \<forall>b' \<le> 255. \<not> candidateMatches fpa pid t sp' b'"
  shows "patternLoop fpa pid t (pre @ rest) = patternLoop fpa pid t rest"
  using assms
proof (induction pre)
  case Nil
  then show ?case by simp
next
  case (Cons a pre)
  then have "bumpLoop fpa pid t a 255 = None" by (simp add: bumpLoop_None_iff)
  with Cons show ?case by simp
qed

lemma patternLoop_Some_iff:
  "patternLoop fpa pid t sps = Some (sp, b) \<longleftrightarrow>
     (\<exists>pre post. sps = pre @ sp # post \<and>
        (\<forall>sp' \<in> set pre. \<forall>b' \<le> 255. \<not> candidateMatches fpa pid t sp' b')) \<and>
     b \<le> 255 \<and> candidateMatches fpa pid t sp b \<and>
     (\<forall>b'. b < b' \<and> b' \<le> 255 \<longrightarrow> \<not> candidateMatches fpa pid t sp b')"
  (is "?L sps \<longleftrightarrow> ?R sps")
proof
  show "?L sps \<Longrightarrow> ?R sps"
  proof (induction sps)
    case Nil
    then show ?case by simp
  next
    case (Cons a sps)
    show ?case
    proof (cases "bumpLoop fpa pid t a 255")
      case None
      with Cons.prems have "patternLoop fpa pid t sps = Some (sp, b)" by simp
      from Cons.IH [OF this] obtain pre post where
        pp: "sps = pre @ sp # post"
            "\<forall>sp' \<in> set pre. \<forall>b' \<le> 255. \<not> candidateMatches fpa pid t sp' b'"
        and rest: "b \<le> 255" "candidateMatches fpa pid t sp b"
            "\<forall>b'. b < b' \<and> b' \<le> 255 \<longrightarrow> \<not> candidateMatches fpa pid t sp b'"
        by blast
      have "a # sps = (a # pre) @ sp # post" using pp(1) by simp
      moreover have "\<forall>sp' \<in> set (a # pre). \<forall>b' \<le> 255. \<not> candidateMatches fpa pid t sp' b'"
        using pp(2) None by (simp add: bumpLoop_None_iff)
      ultimately show ?thesis using rest by blast
    next
      case (Some b0)
      with Cons.prems have eq: "a = sp" "b0 = b" by simp_all
      have "a # sps = [] @ sp # sps" using eq by simp
      moreover have "\<forall>sp' \<in> set ([] :: string list list). \<forall>b' \<le> 255.
          \<not> candidateMatches fpa pid t sp' b'"
        by simp
      ultimately show ?thesis using Some eq unfolding bumpLoop_Some_iff by blast
    qed
  qed
next
  assume r: "?R sps"
  then obtain pre post where
    pp: "sps = pre @ sp # post"
        "\<forall>sp' \<in> set pre. \<forall>b' \<le> 255. \<not> candidateMatches fpa pid t sp' b'"
    by blast
  from r have "bumpLoop fpa pid t sp 255 = Some b"
    by (simp add: bumpLoop_Some_iff)
  then show "?L sps"
    unfolding pp(1) patternLoop_skip [OF pp(2)] by simp
qed

text \<open>
  The search returns the first match in its order: the patterns of the catalogue in
  order, and for each pattern the bumps from 255 down to 0.
\<close>

lemma attemptCommonDerivations_Some_iff:
  "attemptCommonDerivations fpa pid t = Some (sp, b) \<longleftrightarrow>
     (\<exists>pre post. commonSeeds = pre @ sp # post \<and>
        (\<forall>sp' \<in> set pre. \<forall>b' \<le> 255. \<not> candidateMatches fpa pid t sp' b')) \<and>
     b \<le> 255 \<and> candidateMatches fpa pid t sp b \<and>
     (\<forall>b'. b < b' \<and> b' \<le> 255 \<longrightarrow> \<not> candidateMatches fpa pid t sp b')"
  unfolding attemptCommonDerivations_def by (rule patternLoop_Some_iff)

lemma attemptCommonDerivations_None_iff:
  "attemptCommonDerivations fpa pid t = None \<longleftrightarrow>
     (\<forall>sp \<in> set commonSeeds. \<forall>b \<le> 255. \<not> candidateMatches fpa pid t sp b)"
  unfolding attemptCommonDerivations_def by (rule patternLoop_None_iff)

lemma bump_byte_inj:
  "b \<le> 255 \<Longrightarrow> b' \<le> 255 \<Longrightarrow> (of_nat b :: 8 word) = of_nat b' \<longleftrightarrow> b = b'"
  by (simp add: word_of_nat_eq_iff take_bit_nat_eq_self)

text \<open>
  Claim C8. Let \<open>seedPattern\<close> be a pattern of the catalogue and \<open>b\<close> a bump in [0, 255],
  and let \<open>addr\<close> be derived from the program address and the seeds
  \<open>[label bytes, bump byte]\<close> by the derivation function the classifier uses. The
  derivation function is the library's and is a parameter here; the search returns the
  first match, so the pair is recovered when no candidate earlier in the search order (an
  earlier pattern with any bump, or the same pattern with a larger bump) derives the same
  address, as is the case for a collision-free derivation. Then
  \<open>attemptCommonDerivations\<close> returns exactly \<open>(seedPattern, b)\<close>, and \<open>analyzePDA\<close> of an
  account at that off-curve address records these seeds and this bump. The last conjunct
  is the search order itself: a pair is returned if and only if it is the first match.
\<close>

theorem seed_recovery_round_trip:
  assumes catalogue: "commonSeeds = pre @ seedPattern # post"
    and bump_range: "b \<le> 255"
    and derived:
      "findProgramAddress (map Buffer_from seedPattern @ [[of_nat b]]) progId = Some (addr, b2)"
    and no_earlier_pattern:
      "\<forall>sp' \<in> set pre. \<forall>b' \<le> 255. \<not> candidateMatches findProgramAddress progId addr sp' b'"
    and no_larger_bump:
      "\<forall>b'. b < b' \<and> b' \<le> 255 \<longrightarrow>
            \<not> candidateMatches findProgramAddress progId addr seedPattern b'"
    and decoded: "newPublicKey (pubkey acc) = Some addr"
    and off_curve: "\<not> isOnCurve addr"
  shows "attemptCommonDerivations findProgramAddress progId addr = Some (seedPattern, b) \<and>
     (\<exists>acc'. analyzePDA newPublicKey isOnCurve findProgramAddress progId acc = Inr acc' \<and>
        isPDA acc' \<and> seeds acc' = Some seedPattern \<and> bump acc' = Some b) \<and>
     (\<forall>t sp0 b0.
        attemptCommonDerivations findProgramAddress progId t = Some (sp0, b0) \<longleftrightarrow>
          (\<exists>pre0 post0. commonSeeds = pre0 @ sp0 # post0 \<and>
             (\<forall>sp' \<in> set pre0. \<forall>b' \<le> 255.
                \<not> candidateMatches findProgramAddress progId t sp' b')) \<and>
          b0 \<le> 255 \<and> candidateMatches findProgramAddress progId t sp0 b0 \<and>
          (\<forall>b'. b0 < b' \<and> b' \<le> 255 \<longrightarrow>
                \<not> candidateMatches findProgramAddress progId t sp0 b'))"
proof -
  have m: "candidateMatches findProgramAddress progId addr seedPattern b"
    using derived by (simp add: candidateMatches_def)
  have found: "attemptCommonDerivations findProgramAddress progId addr = Some (seedPattern, b)"
    unfolding attemptCommonDerivations_Some_iff
    using catalogue bump_range m no_earlier_pattern no_larger_bump by blast
  have classified:
    "\<exists>acc'. analyzePDA newPublicKey isOnCurve findProgramAddress progId acc = Inr acc' \<and>
        isPDA acc' \<and> seeds acc' = Some seedPattern \<and> bump acc' = Some b"
    using decoded off_curve found by (simp add: analyzePDA_def Let_def)
  have order: "\<forall>t sp0 b0.
        attemptCommonDerivations findProgramAddress progId t = Some (sp0, b0) \<longleftrightarrow>
          (\<exists>pre0 post0. commonSeeds = pre0 @ sp0 # post0 \<and>
             (\<forall>sp' \<in> set pre0. \<forall>b' \<le> 255.
                \<not> candidateMatches findProgramAddress progId t sp' b')) \<and>
          b0 \<le> 255 \<and> candidateMatches findProgramAddress progId t sp0 b0 \<and>
          (\<forall>b'. b0 < b' \<and> b' \<le> 255 \<longrightarrow>
                \<not> candidateMatches findProgramAddress progId t sp0 b')"
    by (intro allI attemptCommonDerivations_Some_iff)
  show ?thesis using found classified order by blast
qed

text \<open>
  In the fixture, the address derived from ''vault'' with bump 254 is recovered as
  (''vault'', 254): the earlier pattern ''metadata'' derives other addresses, and so does
  ''vault'' with the larger bump 255.
\<close>

theorem seed_recovery_round_trip_witness:
  "attemptCommonDerivations fixture_findProgramAddress fixture_programId
      (Buffer_from ''vault'' @ [254] @ fixture_programId) = Some ([''vault''], 254) \<and>
   (\<exists>acc'. analyzePDA fixture_newPublicKey fixture_isOnCurve fixture_findProgramAddress
             fixture_programId fixture_account = Inr acc' \<and>
        isPDA acc' \<and> seeds acc' = Some [''vault''] \<and> bump acc' = Some 254)"
proof -
  let ?addr = "Buffer_from ''vault'' @ [254] @ fixture_programId"
  have h1: "commonSeeds = [[''metadata'']] @ [''vault''] #
      [[''pool''], [''authority''], [''state''], [''config''],
      [''escrow''], [''mint''], [''token''], [''user''], [''account''], [''data'']]"
    by (simp add: commonSeeds_def)
  have h2: "(254::nat) \<le> 255" by simp
  have h3: "fixture_findProgramAddress (map Buffer_from [''vault''] @ [[of_nat 254]])
      fixture_programId = Some (?addr, 255)"
    by (simp add: fixture_findProgramAddress_def)
  have h4: "\<forall>sp' \<in> set [[''metadata'']]. \<forall>b' \<le> 255.
      \<not> candidateMatches fixture_findProgramAddress fixture_programId ?addr sp' b'"
    by (simp add: candidateMatches_def fixture_findProgramAddress_def Buffer_from_def)
  have h5: "\<forall>b'. 254 < b' \<and> b' \<le> 255 \<longrightarrow>
      \<not> candidateMatches fixture_findProgramAddress fixture_programId ?addr [''vault''] b'"
  proof (intro allI impI)
    fix b' :: nat
    assume "254 < b' \<and> b' \<le> 255"
    then have "b' \<le> 255" "b' \<noteq> 254" by simp_all
    then have "(of_nat b' :: 8 word) \<noteq> of_nat 254"
      using bump_byte_inj [of b' 254] by simp
    then show "\<not> candidateMatches fixture_findProgramAddress fixture_programId ?addr
                  [''vault''] b'"
      by (simp add: candidateMatches_def fixture_findProgramAddress_def)
  qed
  have h6: "fixture_newPublicKey (pubkey fixture_account) = Some ?addr"
    by (simp add: fixture_newPublicKey_def fixture_account_def fixture_programId_def
                  Buffer_from_def)
  have h7: "\<not> fixture_isOnCurve ?addr" by (simp add: fixture_isOnCurve_def)
  show ?thesis
    using seed_recovery_round_trip
            [where findProgramAddress = fixture_findProgramAddress
               and newPublicKey = fixture_newPublicKey and isOnCurve = fixture_isOnCurve,
             OF h1 h2 h3 h4 h5 h6 h7]
    by blast
qed

end
